theory Spec2Isabelle
  imports Main "HOL-Library.Sublist" "HOL-Library.Word"
begin

section \<open>Values of the web framework\<close>

text \<open>
  The module \<^verbatim>\<open>code_insight/mcp_server.py\<close> registers three HTTP GET handlers.
  A handler receives a request and returns a response object of the web framework.
  The response classes are constructors; each carries its status code, and \<open>200\<close>
  is written where the source leaves the framework's default.
\<close>

type_synonym byte = "8 word"

text \<open>
  A pure POSIX path as \<^verbatim>\<open>pathlib\<close> holds it: the root (\<open>''''\<close>, \<open>''/''\<close> or
  \<open>''//''\<close>) and the list of segments. The drive is always empty on POSIX.
\<close>

record path =
  p_root :: string
  p_tail :: "string list"

datatype response =
    PlainTextResponse string nat
  | HTMLResponse string nat
  | FileResponse path nat
  | RedirectResponse string nat

record request =
  path_params :: "string \<rightharpoonup> string"
  query_params :: "(string \<times> string) list"

text \<open>
  The exception classes the handler distinguishes: \<open>ValueError\<close> and
  \<open>RuntimeError\<close> (with their subclasses) are named by the \<^verbatim>\<open>except\<close> clause;
  \<open>OSError\<close> stands for a class that clause does not name.
\<close>

datatype pyexn = ValueError | RuntimeError | OSError

section \<open>The filesystem\<close>

text \<open>
  What the handler reads of the operating system. \<open>fs_resolve\<close> is the canonical form
  of a path (\<^verbatim>\<open>Path.resolve()\<close>, which may raise). \<open>fs_node\<close> is what a path names
  after symlinks are followed: a regular file with its bytes, a directory, a node of
  another kind (\<open>Special\<close>: a socket, a device, a pipe), or nothing. \<open>fs_refused\<close>
  holds of the paths whose lookup the operating system refuses with an error other than
  \<open>ENOENT\<close>, \<open>ENOTDIR\<close>, \<open>EBADF\<close> and \<open>ELOOP\<close>: a directory on the way may not be
  searched, a name is too long. The filesystem is threaded through every operation as
  a state, so that what an operation leaves behind is part of its result; both
  operations only read.
\<close>

datatype node = RegularFile "byte list" | Directory | Special

record filesystem =
  fs_resolve :: "path \<Rightarrow> pyexn + path"
  fs_refused :: "path \<Rightarrow> bool"
  fs_node :: "path \<rightharpoonup> node"

definition resolve :: "path \<Rightarrow> filesystem \<Rightarrow> (pyexn + path) \<times> filesystem" where
  "resolve p fs = (fs_resolve fs p, fs)"

text \<open>
  \<^verbatim>\<open>Path.is_file()\<close>, as \<^verbatim>\<open>pathlib\<close> has it up to Python 3.13: the \<open>OSError\<close> of a
  refused lookup is raised again; a path that names nothing is not a file (the four
  error numbers above, and a path that cannot be encoded, are answered with \<open>False\<close>);
  otherwise the kind of the node decides.
\<close>

definition is_file :: "path \<Rightarrow> filesystem \<Rightarrow> (pyexn + bool) \<times> filesystem" where
  "is_file p fs =
     ((if fs_refused fs p then Inl OSError
       else (case fs_node fs p of
               Some (RegularFile bs) \<Rightarrow> Inr True
             | Some Directory \<Rightarrow> Inr False
             | Some Special \<Rightarrow> Inr False
             | None \<Rightarrow> Inr False)), fs)"

section \<open>String methods\<close>

definition startswith :: "string \<Rightarrow> string \<Rightarrow> bool" where
  "startswith s pre = (take (length pre) s = pre)"

definition endswith :: "string \<Rightarrow> string \<Rightarrow> bool" where
  "endswith s suf = (length suf \<le> length s \<and> drop (length s - length suf) s = suf)"

definition rstrip :: "string \<Rightarrow> string \<Rightarrow> string" where
  "rstrip s chars = rev (dropWhile (\<lambda>c. c \<in> set chars) (rev s))"

text \<open>\<^verbatim>\<open>s.split(sep)\<close> for a one-character separator: empty fields are kept.\<close>

fun str_split :: "char \<Rightarrow> string \<Rightarrow> string list" where
  "str_split sep [] = [[]]"
| "str_split sep (c # cs) =
     (if c = sep then [] # str_split sep cs
      else (case str_split sep cs of
              [] \<Rightarrow> [[c]]
            | w # ws \<Rightarrow> (c # w) # ws))"

text \<open>\<^verbatim>\<open>sep.join(xs)\<close> for the separator \<open>/\<close>.\<close>

fun join_sep :: "string list \<Rightarrow> string" where
  "join_sep [] = []"
| "join_sep [x] = x"
| "join_sep (x # y # ys) = x @ CHR ''/'' # join_sep (y # ys)"

section \<open>Pure paths\<close>

text \<open>\<^verbatim>\<open>posixpath.splitroot\<close>, without the drive: the root and the rest.\<close>

definition splitroot :: "string \<Rightarrow> string \<times> string" where
  "splitroot p =
     (if take 1 p \<noteq> ''/'' then ('''', p)
      else if take 1 (drop 1 p) \<noteq> ''/'' \<or> take 1 (drop 2 p) = ''/'' then (''/'', drop 1 p)
      else (take 2 p, drop 2 p))"

text \<open>\<^verbatim>\<open>Path(s)\<close>: the root is split off, empty and \<open>.\<close> segments are dropped.\<close>

definition Path :: "string \<Rightarrow> path" where
  "Path s =
     (case splitroot s of
        (root, rel) \<Rightarrow>
          \<lparr>p_root = root,
           p_tail = filter (\<lambda>x. x \<noteq> [] \<and> x \<noteq> ''.'') (str_split (CHR ''/'') rel)\<rparr>)"

text \<open>\<^verbatim>\<open>str(p)\<close>.\<close>

definition str_path :: "path \<Rightarrow> string" where
  "str_path p = (let s = p_root p @ join_sep (p_tail p) in if s = [] then ''.'' else s)"

text \<open>\<^verbatim>\<open>posixpath.join(a, b)\<close>: an absolute \<open>b\<close> replaces \<open>a\<close>.\<close>

definition posix_join :: "string \<Rightarrow> string \<Rightarrow> string" where
  "posix_join a b =
     (if startswith b ''/'' then b
      else if a = [] \<or> endswith a ''/'' then a @ b
      else a @ ''/'' @ b)"

text \<open>\<^verbatim>\<open>p / key\<close>: the segments are joined as strings and parsed again.\<close>

definition truediv :: "path \<Rightarrow> string \<Rightarrow> path" where
  "truediv p key = Path (posix_join (str_path p) key)"

section \<open>The handlers\<close>

text \<open>
  A handler maps the request and the filesystem to its outcome and the filesystem it
  leaves: \<open>Inr\<close> a response, \<open>Inl\<close> an exception that leaves the handler uncaught.
\<close>

type_synonym handler = "request \<Rightarrow> filesystem \<Rightarrow> (pyexn + response) \<times> filesystem"

text \<open>\<^verbatim>\<open>show_info\<close>, route \<open>/info\<close>.\<close>

definition show_info :: handler where
  "show_info request fs = (Inr (PlainTextResponse ''Health Ok!'' 200), fs)"

text \<open>Line 38: \<^verbatim>\<open>request.path_params.get("filepath", "")\<close>.\<close>

definition get_filepath :: "request \<Rightarrow> string" where
  "get_filepath request = (case path_params request ''filepath'' of None \<Rightarrow> [] | Some v \<Rightarrow> v)"

text \<open>Lines 41 and 42: the default document for an empty or directory-like request.\<close>

definition default_index :: "string \<Rightarrow> string" where
  "default_index filepath =
     (if filepath = [] \<or> endswith filepath ''/''
      then (if filepath \<noteq> [] then rstrip filepath ''/'' @ ''/index.html'' else ''index.html'')
      else filepath)"

text \<open>
  Lines 48 to 51, the body of the \<^verbatim>\<open>try\<close>: \<open>Inl\<close> an exception raised in it,
  \<open>Inr (Some r, p)\<close> the early return of \<open>r\<close>, \<open>Inr (None, p)\<close> falling off its end with
  \<^verbatim>\<open>file_path\<close> rebound to \<open>p\<close>. \<^verbatim>\<open>STATIC_DIR.resolve()\<close> is called twice.
\<close>

definition security_check ::
  "path \<Rightarrow> path \<Rightarrow> filesystem \<Rightarrow> (pyexn + response option \<times> path) \<times> filesystem" where
  "security_check STATIC_DIR file_path fs =
     (case resolve file_path fs of
        (Inl e, fs1) \<Rightarrow> (Inl e, fs1)
      | (Inr file_path', fs1) \<Rightarrow>
     (case resolve STATIC_DIR fs1 of
        (Inl e, fs2) \<Rightarrow> (Inl e, fs2)
      | (Inr unused, fs2) \<Rightarrow>
     (case resolve STATIC_DIR fs2 of
        (Inl e, fs3) \<Rightarrow> (Inl e, fs3)
      | (Inr static_dir', fs3) \<Rightarrow>
          if \<not> startswith (str_path file_path') (str_path static_dir')
          then (Inr (Some (HTMLResponse ''Forbidden'' 403), file_path'), fs3)
          else (Inr (None, file_path'), fs3))))"

text \<open>
  Lines 46 to 59: the security check with its \<^verbatim>\<open>except\<close> clause, then the existence
  check and the file response. \<^verbatim>\<open>is_file()\<close> is called after the \<^verbatim>\<open>try\<close> statement,
  so what it raises leaves the handler.
\<close>

definition serve_file_path :: "path \<Rightarrow> path \<Rightarrow> filesystem \<Rightarrow> (pyexn + response) \<times> filesystem" where
  "serve_file_path STATIC_DIR file_path fs =
     (case security_check STATIC_DIR file_path fs of
        (Inl e, fs1) \<Rightarrow>
          if e = ValueError \<or> e = RuntimeError
          then (Inr (HTMLResponse ''Forbidden'' 403), fs1)
          else (Inl e, fs1)
      | (Inr (Some r, file_path), fs1) \<Rightarrow> (Inr r, fs1)
      | (Inr (None, file_path), fs1) \<Rightarrow>
          (case is_file file_path fs1 of
             (Inl e, fs2) \<Rightarrow> (Inl e, fs2)
           | (Inr False, fs2) \<Rightarrow> (Inr (HTMLResponse ''Not Found'' 404), fs2)
           | (Inr True, fs2) \<Rightarrow> (Inr (FileResponse file_path 200), fs2)))"

text \<open>
  \<^verbatim>\<open>serve_static\<close>, route \<open>/static/{filepath:path}\<close>: lines 38 to 44 build the candidate
  path, the rest is \<open>serve_file_path\<close>. \<open>STATIC_DIR\<close> is the module's constant, the
  directory \<^verbatim>\<open>static\<close> beside the module file.
\<close>

definition serve_static :: "path \<Rightarrow> handler" where
  "serve_static STATIC_DIR request fs =
     (let filepath = get_filepath request;
          filepath = default_index filepath;
          file_path = truediv STATIC_DIR filepath
      in serve_file_path STATIC_DIR file_path fs)"

text \<open>\<^verbatim>\<open>root_redirect\<close>, route \<open>/\<close>.\<close>

definition root_redirect :: handler where
  "root_redirect request fs = (Inr (RedirectResponse ''/static/'' 302), fs)"

section \<open>Notions the properties are stated with\<close>

text \<open>
  Containment by path segments: \<open>c\<close> is the directory \<open>r\<close> or lies below it. This is
  what "inside the root" means for a safety property; the handler never computes it.
\<close>

definition within_root :: "path \<Rightarrow> path \<Rightarrow> bool" where
  "within_root c r = (p_root c = p_root r \<and> prefix (p_tail r) (p_tail c))"

text \<open>The shape of every path that \<open>Path\<close> builds.\<close>

definition wf_path :: "path \<Rightarrow> bool" where
  "wf_path p =
     (p_root p \<in> {[], ''/'', ''//''} \<and>
      list_all (\<lambda>x. x \<noteq> [] \<and> x \<noteq> ''.'' \<and> CHR ''/'' \<notin> set x) (p_tail p))"

section \<open>A sample site\<close>

text \<open>
  A filesystem without symlinks, given by its nodes and the directories that may not
  be searched. The canonical form of a path is then lexical: the root is \<open>/\<close> (the
  working directory is the root directory) and each \<open>..\<close> segment removes the segment
  before it (none at the root). A lookup is refused below a directory that may not be
  searched, and for a path with a segment of more than 255 characters.
\<close>

fun collapse :: "string list \<Rightarrow> string list \<Rightarrow> string list" where
  "collapse acc [] = rev acc"
| "collapse acc (x # xs) =
     (if x = ''..'' then collapse (tl acc) xs else collapse (x # acc) xs)"

definition name_too_long :: "path \<Rightarrow> bool" where
  "name_too_long p = list_ex (\<lambda>seg. 255 < length seg) (p_tail p)"

definition lexical_fs :: "path list \<Rightarrow> (path \<rightharpoonup> node) \<Rightarrow> filesystem" where
  "lexical_fs locked nodes =
     \<lparr>fs_resolve = (\<lambda>p. Inr \<lparr>p_root = ''/'', p_tail = collapse [] (p_tail p)\<rparr>),
      fs_refused =
        (\<lambda>p. name_too_long p \<or> list_ex (\<lambda>d. strict_prefix (p_tail d) (p_tail p)) locked),
      fs_node = nodes\<rparr>"

text \<open>A filesystem on which every canonicalization raises \<open>e\<close>.\<close>

definition raising_fs :: "pyexn \<Rightarrow> filesystem" where
  "raising_fs e =
     \<lparr>fs_resolve = (\<lambda>p. Inl e), fs_refused = (\<lambda>p. False), fs_node = Map.empty\<rparr>"

definition srv_static :: path where
  "srv_static = Path ''/srv/static''"

definition report_bytes :: "byte list" where
  "report_bytes = [0x25, 0x50, 0x44, 0x46]"

definition secret_bytes :: "byte list" where
  "secret_bytes = [0x6B, 0x65, 0x79]"

definition page_bytes :: "byte list" where
  "page_bytes = [0x3C, 0x70, 0x3E]"

definition site_nodes :: "path \<rightharpoonup> node" where
  "site_nodes =
     [Path ''/srv/static'' \<mapsto> Directory,
      Path ''/srv/static/index.html'' \<mapsto> RegularFile page_bytes,
      Path ''/srv/static/docs'' \<mapsto> Directory,
      Path ''/srv/static/docs/index.html'' \<mapsto> RegularFile page_bytes,
      Path ''/srv/static/report.pdf'' \<mapsto> RegularFile report_bytes,
      Path ''/srv/static/private'' \<mapsto> Directory,
      Path ''/srv/static/private/report.pdf'' \<mapsto> RegularFile report_bytes,
      Path ''/srv/static-evil'' \<mapsto> Directory,
      Path ''/srv/static-evil/secret.txt'' \<mapsto> RegularFile secret_bytes]"

text \<open>The directory \<open>/srv/static/private\<close> may not be searched.\<close>

definition site_fs :: filesystem where
  "site_fs = lexical_fs [Path ''/srv/static/private''] site_nodes"

text \<open>The request the route \<open>/static/{filepath:path}\<close> hands to the handler.\<close>

definition static_request :: "string \<Rightarrow> request" where
  "static_request filepath = \<lparr>path_params = [''filepath'' \<mapsto> filepath], query_params = []\<rparr>"

text \<open>A name of 300 characters, longer than a directory entry may be.\<close>

definition long_name :: string where
  "long_name = replicate 300 (CHR ''a'')"

definition long_path :: path where
  "long_path = Path (''/srv/static/'' @ long_name)"

section \<open>The handler, branch by branch\<close>

text \<open>
  The outcome of \<open>serve_file_path\<close>, and so of \<open>serve_static\<close>, in terms of what the
  filesystem answers: the candidate fails to canonicalize, the root fails to
  canonicalize, or both succeed.
\<close>

lemma is_file_answer:
  "fst (is_file p fs) =
     (if fs_refused fs p then Inl OSError
      else Inr (\<exists>bs. fs_node fs p = Some (RegularFile bs)))"
  by (auto simp: is_file_def split: option.splits node.splits)

lemma serve_file_path_candidate_raises:
  assumes "fs_resolve fs p = Inl e"
  shows "serve_file_path SD p fs =
    (if e = ValueError \<or> e = RuntimeError then Inr (HTMLResponse ''Forbidden'' 403) else Inl e, fs)"
  using assms by (simp add: serve_file_path_def security_check_def resolve_def)

lemma serve_file_path_root_raises:
  assumes "fs_resolve fs p = Inr c" and "fs_resolve fs SD = Inl e"
  shows "serve_file_path SD p fs =
    (if e = ValueError \<or> e = RuntimeError then Inr (HTMLResponse ''Forbidden'' 403) else Inl e, fs)"
  using assms by (simp add: serve_file_path_def security_check_def resolve_def)

lemma serve_file_path_resolved:
  assumes "fs_resolve fs p = Inr c" and "fs_resolve fs SD = Inr r"
  shows "serve_file_path SD p fs =
    (if \<not> startswith (str_path c) (str_path r) then Inr (HTMLResponse ''Forbidden'' 403)
     else if fs_refused fs c then Inl OSError
     else if \<exists>bs. fs_node fs c = Some (RegularFile bs) then Inr (FileResponse c 200)
     else Inr (HTMLResponse ''Not Found'' 404), fs)"
  using assms
  by (auto simp: serve_file_path_def security_check_def resolve_def is_file_def
      split: option.splits node.splits)

lemma serve_static_target:
  "serve_static SD req fs = serve_file_path SD (truediv SD (default_index (get_filepath req))) fs"
  by (simp add: serve_static_def)

lemma serve_static_candidate_raises:
  assumes "fs_resolve fs (truediv SD (default_index (get_filepath req))) = Inl e"
  shows "serve_static SD req fs =
    (if e = ValueError \<or> e = RuntimeError then Inr (HTMLResponse ''Forbidden'' 403) else Inl e, fs)"
  using serve_file_path_candidate_raises [OF assms] by (simp add: serve_static_target)

lemma serve_static_root_raises:
  assumes "fs_resolve fs (truediv SD (default_index (get_filepath req))) = Inr c"
    and "fs_resolve fs SD = Inl e"
  shows "serve_static SD req fs =
    (if e = ValueError \<or> e = RuntimeError then Inr (HTMLResponse ''Forbidden'' 403) else Inl e, fs)"
  using serve_file_path_root_raises [OF assms] by (simp add: serve_static_target)

lemma serve_static_resolved:
  assumes "fs_resolve fs (truediv SD (default_index (get_filepath req))) = Inr c"
    and "fs_resolve fs SD = Inr r"
  shows "serve_static SD req fs =
    (if \<not> startswith (str_path c) (str_path r) then Inr (HTMLResponse ''Forbidden'' 403)
     else if fs_refused fs c then Inl OSError
     else if \<exists>bs. fs_node fs c = Some (RegularFile bs) then Inr (FileResponse c 200)
     else Inr (HTMLResponse ''Not Found'' 404), fs)"
  using serve_file_path_resolved [OF assms] by (simp add: serve_static_target)

section \<open>Splitting, joining and parsing paths\<close>

text \<open>
  Joining a relative key to a well-formed path with at least one segment keeps the root
  and appends the key's segments; every path built by \<open>Path\<close> is well-formed.
\<close>

lemma str_split_not_Nil: "str_split sep s \<noteq> []"
  by (induction s) (auto split: list.splits)

lemma str_split_append:
  "str_split sep (a @ sep # b) = str_split sep a @ str_split sep b"
proof (induction a)
  case Nil
  show ?case by simp
next
  case (Cons c a)
  then show ?case
    using str_split_not_Nil [of sep a] by (cases "str_split sep a") auto
qed

lemma str_split_no_sep: "sep \<notin> set s \<Longrightarrow> str_split sep s = [s]"
  by (induction s) auto

lemma str_split_fields: "x \<in> set (str_split sep s) \<Longrightarrow> sep \<notin> set x"
proof (induction s arbitrary: x)
  case Nil
  then show ?case by simp
next
  case (Cons c s)
  then show ?case
    by (cases "str_split sep s") (auto split: if_splits)
qed

lemma str_split_join:
  "xs \<noteq> [] \<Longrightarrow> list_all (\<lambda>x. CHR ''/'' \<notin> set x) xs \<Longrightarrow>
   str_split (CHR ''/'') (join_sep xs) = xs"
proof (induction xs rule: join_sep.induct)
  case 1
  then show ?case by simp
next
  case (2 x)
  then show ?case by (simp add: str_split_no_sep)
next
  case (3 x y ys)
  then show ?case
    using str_split_append [of "CHR ''/''" x "join_sep (y # ys)"]
    by (simp add: str_split_no_sep)
qed

lemma join_sep_append:
  "xs \<noteq> [] \<Longrightarrow> ys \<noteq> [] \<Longrightarrow> join_sep (xs @ ys) = join_sep xs @ CHR ''/'' # join_sep ys"
proof (induction xs rule: join_sep.induct)
  case 1
  then show ?case by simp
next
  case (2 x)
  then show ?case by (cases ys) auto
next
  case (3 x y zs)
  then show ?case by simp
qed

lemma join_sep_first:
  assumes "xs \<noteq> []" and "list_all (\<lambda>x. x \<noteq> [] \<and> x \<noteq> ''.'' \<and> CHR ''/'' \<notin> set x) xs"
  shows "\<exists>c cs. join_sep xs = c # cs \<and> c \<noteq> CHR ''/''"
proof -
  from assms obtain x xs' where xs: "xs = x # xs'" by (cases xs) auto
  with assms obtain c cs where x: "x = c # cs" and "c \<noteq> CHR ''/''"
    by (cases x) auto
  then show ?thesis using xs by (cases xs') auto
qed

lemma join_sep_last:
  assumes "xs \<noteq> []" and "list_all (\<lambda>x. x \<noteq> [] \<and> x \<noteq> ''.'' \<and> CHR ''/'' \<notin> set x) xs"
  shows "join_sep xs \<noteq> [] \<and> last (join_sep xs) \<noteq> CHR ''/''"
  using assms
proof (induction xs rule: join_sep.induct)
  case 1
  then show ?case by simp
next
  case (2 x)
  then show ?case by (cases x rule: rev_cases) auto
next
  case (3 x y ys)
  then show ?case by simp
qed

lemma endswith_single: "endswith s [c] = (s \<noteq> [] \<and> last s = c)"
  by (cases s rule: rev_cases) (auto simp: endswith_def)


lemma splitroot_str:
  assumes "wf_path p" and "p_tail p \<noteq> []"
  shows "splitroot (p_root p @ join_sep (p_tail p) @ t) = (p_root p, join_sep (p_tail p) @ t)"
proof -
  from assms obtain c cs where j: "join_sep (p_tail p) = c # cs" and c: "c \<noteq> CHR ''/''"
    using join_sep_first [of "p_tail p"] by (auto simp: wf_path_def)
  from assms have "p_root p = [] \<or> p_root p = ''/'' \<or> p_root p = ''//''"
    by (simp add: wf_path_def)
  then show ?thesis using j c by (auto simp: splitroot_def)
qed

lemma filter_segments_id:
  "list_all (\<lambda>x. x \<noteq> [] \<and> x \<noteq> ''.'' \<and> CHR ''/'' \<notin> set x) xs \<Longrightarrow>
   filter (\<lambda>x. x \<noteq> [] \<and> x \<noteq> ''.'') xs = xs"
  by (induction xs) auto

lemma truediv_relative:
  assumes wf: "wf_path p" and tl: "p_tail p \<noteq> []" and rel: "\<not> startswith key ''/''"
  shows "truediv p key =
    p\<lparr>p_tail := p_tail p @ filter (\<lambda>x. x \<noteq> [] \<and> x \<noteq> ''.'') (str_split (CHR ''/'') key)\<rparr>"
proof -
  let ?j = "join_sep (p_tail p)"
  have all: "list_all (\<lambda>x. x \<noteq> [] \<and> x \<noteq> ''.'' \<and> CHR ''/'' \<notin> set x) (p_tail p)"
    using wf by (simp add: wf_path_def)
  have last: "?j \<noteq> [] \<and> last ?j \<noteq> CHR ''/''"
    using join_sep_last [OF tl all] .
  have s: "str_path p = p_root p @ ?j"
    using last by (simp add: str_path_def Let_def)
  have ne: "\<not> endswith (p_root p @ ?j) ''/''"
    using last by (simp add: endswith_single)
  have j: "posix_join (str_path p) key = p_root p @ ?j @ CHR ''/'' # key"
    using rel ne last by (simp add: posix_join_def s)
  have nosep: "list_all (\<lambda>x. CHR ''/'' \<notin> set x) (p_tail p)"
    using all by (induction "p_tail p") (auto simp: list_all_iff)
  have sp: "str_split (CHR ''/'') (?j @ CHR ''/'' # key) = p_tail p @ str_split (CHR ''/'') key"
    by (simp add: str_split_append str_split_join [OF tl nosep])
  show ?thesis
    unfolding truediv_def j Path_def
    using splitroot_str [OF wf tl, of "CHR ''/'' # key"]
    by (simp add: sp filter_segments_id [OF all])
qed

lemma splitroot_root: "fst (splitroot s) \<in> {[], ''/'', ''//''}"
proof (cases s)
  case Nil
  then show ?thesis by (simp add: splitroot_def)
next
  case (Cons a s')
  then show ?thesis by (cases s') (auto simp: splitroot_def)
qed

lemma wf_Path: "wf_path (Path s)"
proof -
  obtain root rel where sr: "splitroot s = (root, rel)" by (cases "splitroot s")
  have "root \<in> {[], ''/'', ''//''}"
    using splitroot_root [of s] sr by simp
  moreover have "list_all (\<lambda>x. x \<noteq> [] \<and> x \<noteq> ''.'' \<and> CHR ''/'' \<notin> set x)
      (filter (\<lambda>x. x \<noteq> [] \<and> x \<noteq> ''.'') (str_split (CHR ''/'') rel))"
    using str_split_fields [of _ "CHR ''/''" rel] by (auto simp: list_all_iff)
  ultimately show ?thesis by (simp add: wf_path_def Path_def sr)
qed

lemma rstrip_decomp: "\<exists>n. s = rstrip s [c] @ replicate n c"
proof -
  let ?P = "\<lambda>x. x \<in> set [c]"
  have "takeWhile ?P (rev s) = replicate (length (takeWhile ?P (rev s))) c"
    by (rule replicate_eqI) (auto dest: set_takeWhileD)
  moreover have "s = rev (dropWhile ?P (rev s)) @ rev (takeWhile ?P (rev s))"
    by (metis rev_append rev_rev_ident takeWhile_dropWhile_id)
  ultimately have "s = rstrip s [c] @ replicate (length (takeWhile ?P (rev s))) c"
    by (metis rev_replicate rstrip_def)
  then show ?thesis ..
qed

lemma rstrip_stripped: "\<not> endswith (rstrip s [c]) [c]"
proof -
  let ?d = "dropWhile (\<lambda>x. x \<in> set [c]) (rev s)"
  have "?d \<noteq> [] \<Longrightarrow> hd ?d \<noteq> c"
    using hd_dropWhile [of "\<lambda>x. x \<in> set [c]" "rev s"] by simp
  then show ?thesis
    by (auto simp: endswith_single rstrip_def last_rev)
qed



lemma str_path_extend:
  assumes "wf_path p" and "p_tail p \<noteq> []" and "segs \<noteq> []"
  shows "str_path (p\<lparr>p_tail := p_tail p @ segs\<rparr>) = str_path p @ CHR ''/'' # join_sep segs"
proof -
  have all: "list_all (\<lambda>x. x \<noteq> [] \<and> x \<noteq> ''.'' \<and> CHR ''/'' \<notin> set x) (p_tail p)"
    using assms(1) by (simp add: wf_path_def)
  have "join_sep (p_tail p) \<noteq> []"
    using join_sep_last [OF assms(2) all] by simp
  then show ?thesis
    using assms(2,3) by (simp add: str_path_def Let_def join_sep_append)
qed

lemma Path_targets:
  assumes "p_tail (Path root) \<noteq> []"
  shows "str_path (truediv (Path root) ''index.html'') = str_path (Path root) @ ''/index.html''"
    and "str_path (truediv (Path root) ''docs/index.html'') = str_path (Path root) @ ''/docs/index.html''"
proof -
  have 1: "truediv (Path root) ''index.html'' = (Path root)\<lparr>p_tail := p_tail (Path root) @ [''index.html'']\<rparr>"
    using truediv_relative [OF wf_Path assms, of "''index.html''"] by (simp add: startswith_def)
  have 2: "truediv (Path root) ''docs/index.html'' = (Path root)\<lparr>p_tail := p_tail (Path root) @ [''docs'', ''index.html'']\<rparr>"
    using truediv_relative [OF wf_Path assms, of "''docs/index.html''"] by (simp add: startswith_def)
  show "str_path (truediv (Path root) ''index.html'') = str_path (Path root) @ ''/index.html''"
    unfolding 1 using str_path_extend [OF wf_Path assms, of "[''index.html'']"] by simp
  show "str_path (truediv (Path root) ''docs/index.html'') = str_path (Path root) @ ''/docs/index.html''"
    unfolding 2 using str_path_extend [OF wf_Path assms, of "[''docs'', ''index.html'']"] by simp
qed

lemma default_index_docs: "default_index ''docs/'' = ''docs/index.html''"
  by (simp add: default_index_def endswith_def rstrip_def)


section \<open>The sample site, evaluated\<close>

lemma site_target_sibling_file:
  "fs_resolve site_fs (truediv srv_static
      (default_index (get_filepath (static_request ''../static-evil/secret.txt'')))) =
   Inr (Path ''/srv/static-evil/secret.txt'')"
  by code_simp

lemma site_target_sibling:
  "fs_resolve site_fs (truediv srv_static
      (default_index (get_filepath (static_request ''../static-evil'')))) =
   Inr (Path ''/srv/static-evil'')"
  by code_simp

lemma site_target_passwd:
  "fs_resolve site_fs (truediv srv_static
      (default_index (get_filepath (static_request ''../../etc/passwd'')))) =
   Inr (Path ''/etc/passwd'')"
  by code_simp

lemma site_target_report:
  "fs_resolve site_fs (truediv srv_static
      (default_index (get_filepath (static_request ''report.pdf'')))) =
   Inr (Path ''/srv/static/report.pdf'')"
  by code_simp

lemma site_target_docs:
  "fs_resolve site_fs (truediv srv_static
      (default_index (get_filepath (static_request ''docs'')))) =
   Inr (Path ''/srv/static/docs'')"
  by code_simp

lemma site_target_missing:
  "fs_resolve site_fs (truediv srv_static
      (default_index (get_filepath (static_request ''missing.txt'')))) =
   Inr (Path ''/srv/static/missing.txt'')"
  by code_simp


lemma site_target_long:
  "fs_resolve site_fs (truediv srv_static
      (default_index (get_filepath (static_request long_name)))) =
   Inr long_path"
  by code_simp

lemma site_resolve:
  "fs_resolve site_fs (truediv srv_static ''index.html'') = Inr (Path ''/srv/static/index.html'')"
  "fs_resolve site_fs (truediv srv_static ''docs/index.html'') =
     Inr (Path ''/srv/static/docs/index.html'')"
  "fs_resolve site_fs (truediv srv_static ''report.pdf'') = Inr (Path ''/srv/static/report.pdf'')"
  by code_simp+

lemma site_root: "fs_resolve site_fs srv_static = Inr srv_static"
  by code_simp

lemma site_prefixes:
  "startswith (str_path (Path ''/srv/static-evil/secret.txt'')) (str_path srv_static)"
  "startswith (str_path (Path ''/srv/static-evil'')) (str_path srv_static)"
  "startswith (str_path (Path ''/srv/static/report.pdf'')) (str_path srv_static)"
  "startswith (str_path (Path ''/srv/static/docs'')) (str_path srv_static)"
  "startswith (str_path (Path ''/srv/static/missing.txt'')) (str_path srv_static)"
  "\<not> startswith (str_path (Path ''/etc/passwd'')) (str_path srv_static)"
  "startswith (str_path (Path ''/srv/static/private/report.pdf'')) (str_path srv_static)"
  "startswith (str_path long_path) (str_path srv_static)"
  "startswith (str_path (Path ''/srv/static/index.html'')) (str_path srv_static)"
  "startswith (str_path (Path ''/srv/static/docs/index.html'')) (str_path srv_static)"
  by code_simp+

lemma site_node:
  "fs_node site_fs (Path ''/srv/static-evil/secret.txt'') = Some (RegularFile secret_bytes)"
  "fs_node site_fs (Path ''/srv/static/report.pdf'') = Some (RegularFile report_bytes)"
  "fs_node site_fs (Path ''/srv/static-evil'') = Some Directory"
  "fs_node site_fs (Path ''/srv/static/docs'') = Some Directory"
  "fs_node site_fs (Path ''/srv/static/missing.txt'') = None"
  "fs_node site_fs (Path ''/srv/static/private/report.pdf'') = Some (RegularFile report_bytes)"
  "fs_node site_fs long_path = None"
  "fs_node site_fs (Path ''/srv/static/index.html'') = Some (RegularFile page_bytes)"
  "fs_node site_fs (Path ''/srv/static/docs/index.html'') = Some (RegularFile page_bytes)"
  by code_simp+

lemma site_refused:
  "\<not> fs_refused site_fs (Path ''/srv/static-evil/secret.txt'')"
  "\<not> fs_refused site_fs (Path ''/srv/static/report.pdf'')"
  "\<not> fs_refused site_fs (Path ''/srv/static-evil'')"
  "\<not> fs_refused site_fs (Path ''/srv/static/docs'')"
  "\<not> fs_refused site_fs (Path ''/srv/static/missing.txt'')"
  "fs_refused site_fs (Path ''/srv/static/private/report.pdf'')"
  "fs_refused site_fs long_path"
  "\<not> fs_refused site_fs (Path ''/srv/static/index.html'')"
  "\<not> fs_refused site_fs (Path ''/srv/static/docs/index.html'')"
  by code_simp+

lemma site_outside:
  "\<not> within_root (Path ''/srv/static-evil/secret.txt'') srv_static"
  "\<not> within_root (Path ''/srv/static-evil'') (Path ''/srv/static'')"
  by code_simp+


lemma site_segments: "p_tail (Path ''/srv/static'') \<noteq> []"
  by code_simp

section \<open>The fixed routes\<close>

text \<open>
  C10. A GET request to \<open>/info\<close> gets the fixed plain-text response \<open>Health Ok!\<close> with
  status 200, whatever the request and the filesystem are, and the filesystem is
  handed back as it was: the static resolver plays no part.
\<close>

theorem show_info_fixed:
  "show_info request fs = (Inr (PlainTextResponse ''Health Ok!'' 200), fs)"
  by (simp add: show_info_def)

text \<open>
  C9. A GET request to \<open>/\<close> gets a redirect with status 302 to \<open>/static/\<close>, whatever the
  request (its query parameters included) and the filesystem are, and the filesystem is
  handed back as it was: the static resolver plays no part.
\<close>

theorem root_redirect_unconditional:
  "root_redirect request fs = (Inr (RedirectResponse ''/static/'' 302), fs)"
  by (simp add: root_redirect_def)

section \<open>The static route\<close>

text \<open>
  C3. The handler answers a request as lines 46 to 59 answer its candidate path, and
  the candidate is the root joined with the normalized request: for the empty request
  the root joined with \<open>index.html\<close>; for a non-empty request that ends with the
  separator, the root joined with the request stripped of all its trailing separators
  (what is left does not end with one, and differs from the request by separators only)
  followed by \<open>/index.html\<close>; for any other request, the root joined with the request
  itself. For a root directory with at least one segment, the candidate of the empty
  request is \<open>index.html\<close> directly under the root and that of the request \<open>docs/\<close>
  is \<open>docs/index.html\<close> under it.
\<close>

theorem default_document_normalization:
  "(get_filepath request = [] \<longrightarrow>
      serve_static STATIC_DIR request fs =
        serve_file_path STATIC_DIR (truediv STATIC_DIR ''index.html'') fs)
   \<and> (get_filepath request \<noteq> [] \<and> endswith (get_filepath request) ''/'' \<longrightarrow>
        serve_static STATIC_DIR request fs =
          serve_file_path STATIC_DIR
            (truediv STATIC_DIR (rstrip (get_filepath request) ''/'' @ ''/index.html'')) fs
        \<and> \<not> endswith (rstrip (get_filepath request) ''/'') ''/''
        \<and> (\<exists>n. get_filepath request =
               rstrip (get_filepath request) ''/'' @ replicate n (CHR ''/'')))
   \<and> (get_filepath request \<noteq> [] \<and> \<not> endswith (get_filepath request) ''/'' \<longrightarrow>
        serve_static STATIC_DIR request fs =
          serve_file_path STATIC_DIR (truediv STATIC_DIR (get_filepath request)) fs)
   \<and> (p_tail (Path root) \<noteq> [] \<and> get_filepath request = [] \<longrightarrow>
        str_path (truediv (Path root) ''index.html'') = str_path (Path root) @ ''/index.html''
        \<and> serve_static (Path root) request fs =
            serve_file_path (Path root) (truediv (Path root) ''index.html'') fs)
   \<and> (p_tail (Path root) \<noteq> [] \<and> get_filepath request = ''docs/'' \<longrightarrow>
        str_path (truediv (Path root) ''docs/index.html'') =
          str_path (Path root) @ ''/docs/index.html''
        \<and> serve_static (Path root) request fs =
            serve_file_path (Path root) (truediv (Path root) ''docs/index.html'') fs)"
proof (intro conjI impI)
  assume "get_filepath request = []"
  then show "serve_static STATIC_DIR request fs =
      serve_file_path STATIC_DIR (truediv STATIC_DIR ''index.html'') fs"
    by (simp add: serve_static_target default_index_def)
next
  assume "get_filepath request \<noteq> [] \<and> endswith (get_filepath request) ''/''"
  then show "serve_static STATIC_DIR request fs =
      serve_file_path STATIC_DIR
        (truediv STATIC_DIR (rstrip (get_filepath request) ''/'' @ ''/index.html'')) fs"
    by (simp add: serve_static_target default_index_def)
next
  show "\<not> endswith (rstrip (get_filepath request) ''/'') ''/''"
    by (rule rstrip_stripped)
next
  show "\<exists>n. get_filepath request = rstrip (get_filepath request) ''/'' @ replicate n (CHR ''/'')"
    by (rule rstrip_decomp)
next
  assume "get_filepath request \<noteq> [] \<and> \<not> endswith (get_filepath request) ''/''"
  then show "serve_static STATIC_DIR request fs =
      serve_file_path STATIC_DIR (truediv STATIC_DIR (get_filepath request)) fs"
    by (simp add: serve_static_target default_index_def)
next
  assume "p_tail (Path root) \<noteq> [] \<and> get_filepath request = []"
  then show "str_path (truediv (Path root) ''index.html'') = str_path (Path root) @ ''/index.html''"
    using Path_targets(1) by simp
next
  assume "p_tail (Path root) \<noteq> [] \<and> get_filepath request = []"
  then show "serve_static (Path root) request fs =
      serve_file_path (Path root) (truediv (Path root) ''index.html'') fs"
    by (simp add: serve_static_target default_index_def)
next
  assume "p_tail (Path root) \<noteq> [] \<and> get_filepath request = ''docs/''"
  then show "str_path (truediv (Path root) ''docs/index.html'') =
      str_path (Path root) @ ''/docs/index.html''"
    using Path_targets(2) by simp
next
  assume "p_tail (Path root) \<noteq> [] \<and> get_filepath request = ''docs/''"
  then show "serve_static (Path root) request fs =
      serve_file_path (Path root) (truediv (Path root) ''docs/index.html'') fs"
    by (simp add: serve_static_target default_index_docs)
qed

text \<open>
  On the sample site, whose root is \<open>/srv/static\<close>: the empty request is answered with
  \<open>/srv/static/index.html\<close>, the requests \<open>docs/\<close> and \<open>docs///\<close> with
  \<open>/srv/static/docs/index.html\<close>, and the request \<open>report.pdf\<close> with that file.
\<close>

theorem default_document_normalization_witness:
  "get_filepath (static_request []) = []
   \<and> p_tail (Path ''/srv/static'') \<noteq> []
   \<and> str_path (truediv (Path ''/srv/static'') ''index.html'') = ''/srv/static/index.html''
   \<and> serve_static (Path ''/srv/static'') (static_request []) site_fs =
       (Inr (FileResponse (Path ''/srv/static/index.html'') 200), site_fs)
   \<and> get_filepath (static_request ''docs/'') = ''docs/''
   \<and> str_path (truediv (Path ''/srv/static'') ''docs/index.html'') =
       ''/srv/static/docs/index.html''
   \<and> serve_static (Path ''/srv/static'') (static_request ''docs/'') site_fs =
       (Inr (FileResponse (Path ''/srv/static/docs/index.html'') 200), site_fs)
   \<and> endswith (get_filepath (static_request ''docs///'')) ''/''
   \<and> rstrip (get_filepath (static_request ''docs///'')) ''/'' = ''docs''
   \<and> serve_static (Path ''/srv/static'') (static_request ''docs///'') site_fs =
       (Inr (FileResponse (Path ''/srv/static/docs/index.html'') 200), site_fs)
   \<and> \<not> endswith (get_filepath (static_request ''report.pdf'')) ''/''
   \<and> serve_static (Path ''/srv/static'') (static_request ''report.pdf'') site_fs =
       (Inr (FileResponse (Path ''/srv/static/report.pdf'') 200), site_fs)"
proof -
  let ?root = "Path ''/srv/static''"
  have g: "get_filepath (static_request []) = []"
    "get_filepath (static_request ''docs/'') = ''docs/''"
    "get_filepath (static_request ''docs///'') = ''docs///''"
    "get_filepath (static_request ''report.pdf'') = ''report.pdf''"
    by (simp_all add: get_filepath_def static_request_def)
  have e: "endswith ''docs///'' ''/''" "\<not> endswith ''report.pdf'' ''/''"
    "rstrip ''docs///'' ''/'' = ''docs''"
    "str_path ?root = ''/srv/static''"
    by code_simp+
  have root: "fs_resolve site_fs ?root = Inr ?root"
    using site_root by (simp add: srv_static_def)
  have served:
    "serve_file_path ?root (truediv ?root ''index.html'') site_fs =
       (Inr (FileResponse (Path ''/srv/static/index.html'') 200), site_fs)"
    "serve_file_path ?root (truediv ?root ''docs/index.html'') site_fs =
       (Inr (FileResponse (Path ''/srv/static/docs/index.html'') 200), site_fs)"
    "serve_file_path ?root (truediv ?root ''report.pdf'') site_fs =
       (Inr (FileResponse (Path ''/srv/static/report.pdf'') 200), site_fs)"
    using serve_file_path_resolved [OF site_resolve(1) [unfolded srv_static_def] root]
      serve_file_path_resolved [OF site_resolve(2) [unfolded srv_static_def] root]
      serve_file_path_resolved [OF site_resolve(3) [unfolded srv_static_def] root]
      site_prefixes [unfolded srv_static_def]
    by (simp_all add: site_refused site_node)
  show ?thesis
    using default_document_normalization
        [of "static_request []" ?root site_fs "''/srv/static''"]
      default_document_normalization
        [of "static_request ''docs/''" ?root site_fs "''/srv/static''"]
      default_document_normalization
        [of "static_request ''docs///''" ?root site_fs "''/srv/static''"]
      default_document_normalization
        [of "static_request ''report.pdf''" ?root site_fs "''/srv/static''"]
      g e served site_segments
    by simp
qed

text \<open>
  C2, as the source has it. A candidate that passes the prefix test reaches the
  existence check, but that check need not end in the file response or \<open>404\<close>: for a
  name of 300 characters the lookup is refused, \<^verbatim>\<open>is_file()\<close> raises \<open>OSError\<close> after
  the \<^verbatim>\<open>try\<close> statement, and the exception leaves the handler.
\<close>

theorem accepted_request_raises:
  "fs_resolve site_fs (truediv srv_static
      (default_index (get_filepath (static_request long_name)))) = Inr long_path
   \<and> fs_resolve site_fs srv_static = Inr srv_static
   \<and> startswith (str_path long_path) (str_path srv_static)
   \<and> fst (serve_static srv_static (static_request long_name) site_fs) = Inl OSError
   \<and> fst (serve_static srv_static (static_request long_name) site_fs) \<noteq>
       Inr (FileResponse long_path 200)
   \<and> fst (serve_static srv_static (static_request long_name) site_fs) \<noteq>
       Inr (HTMLResponse ''Not Found'' 404)"
  using serve_static_resolved [OF site_target_long site_root]
  by (simp add: site_target_long site_root site_prefixes site_refused)

text \<open>
  C2, amended. When the candidate and the root both have a canonical form, the handler
  answers \<open>403 Forbidden\<close> exactly when the string of the canonical candidate does not
  start with the string of the canonical root. When it does, the request reaches the
  existence check: if the lookup of the canonical candidate is answered, the outcome is
  the file response or \<open>404 Not Found\<close>; if the lookup is refused, the \<open>OSError\<close>
  leaves the handler. The test is on strings: \<open>/srv/static-evil\<close> starts with
  \<open>/srv/static\<close> and passes, although it is a sibling of that directory and not inside
  it.
\<close>

theorem containment_is_string_prefix:
  assumes "fs_resolve fs (truediv STATIC_DIR (default_index (get_filepath request))) = Inr c"
    and "fs_resolve fs STATIC_DIR = Inr r"
  shows "(fst (serve_static STATIC_DIR request fs) = Inr (HTMLResponse ''Forbidden'' 403)) =
           (\<not> startswith (str_path c) (str_path r))
     \<and> (startswith (str_path c) (str_path r) \<and> \<not> fs_refused fs c \<longrightarrow>
          fst (serve_static STATIC_DIR request fs) =
            (if \<exists>bs. fs_node fs c = Some (RegularFile bs) then Inr (FileResponse c 200)
             else Inr (HTMLResponse ''Not Found'' 404)))
     \<and> (startswith (str_path c) (str_path r) \<and> fs_refused fs c \<longrightarrow>
          fst (serve_static STATIC_DIR request fs) = Inl OSError)
     \<and> startswith (str_path (Path ''/srv/static-evil'')) (str_path (Path ''/srv/static''))
     \<and> \<not> within_root (Path ''/srv/static-evil'') (Path ''/srv/static'')"
proof -
  have "startswith (str_path (Path ''/srv/static-evil'')) (str_path (Path ''/srv/static''))"
    using site_prefixes(2) by (simp add: srv_static_def)
  then show ?thesis
    using serve_static_resolved [OF assms] site_outside(2) by simp
qed

text \<open>
  On the sample site the request \<open>../static-evil\<close> passes the test and reaches the
  existence check, which answers \<open>404\<close> for the directory; the request
  \<open>../../etc/passwd\<close> fails the test and is forbidden; the request for the long name
  passes the test and its lookup is refused.
\<close>

theorem containment_is_string_prefix_witness:
  "fs_resolve site_fs (truediv srv_static
      (default_index (get_filepath (static_request ''../static-evil'')))) =
     Inr (Path ''/srv/static-evil'')
   \<and> fs_resolve site_fs srv_static = Inr srv_static
   \<and> startswith (str_path (Path ''/srv/static-evil'')) (str_path srv_static)
   \<and> \<not> fs_refused site_fs (Path ''/srv/static-evil'')
   \<and> fst (serve_static srv_static (static_request ''../static-evil'') site_fs) =
       Inr (HTMLResponse ''Not Found'' 404)
   \<and> fs_resolve site_fs (truediv srv_static
      (default_index (get_filepath (static_request ''../../etc/passwd'')))) =
     Inr (Path ''/etc/passwd'')
   \<and> \<not> startswith (str_path (Path ''/etc/passwd'')) (str_path srv_static)
   \<and> fst (serve_static srv_static (static_request ''../../etc/passwd'') site_fs) =
       Inr (HTMLResponse ''Forbidden'' 403)
   \<and> fs_resolve site_fs (truediv srv_static
      (default_index (get_filepath (static_request long_name)))) = Inr long_path
   \<and> startswith (str_path long_path) (str_path srv_static)
   \<and> fs_refused site_fs long_path
   \<and> fst (serve_static srv_static (static_request long_name) site_fs) = Inl OSError"
  using containment_is_string_prefix [OF site_target_sibling site_root]
    containment_is_string_prefix [OF site_target_passwd site_root]
    containment_is_string_prefix [OF site_target_long site_root]
  by (simp add: site_target_sibling site_target_passwd site_target_long site_root
      site_prefixes site_refused site_node)

text \<open>
  C1. The safety property asked for is that no request whose canonical target lies
  outside the root is answered with a file. The handler does not keep it: on the sample
  site, with the root \<open>/srv/static\<close>, the request \<open>../static-evil/secret.txt\<close> has the
  canonical target \<open>/srv/static-evil/secret.txt\<close>, which is not inside the root, and the
  handler answers with the file response for that path, which names the regular file
  outside the root.
\<close>

theorem sibling_directory_file_served:
  "fs_resolve site_fs (truediv srv_static
      (default_index (get_filepath (static_request ''../static-evil/secret.txt'')))) =
     Inr (Path ''/srv/static-evil/secret.txt'')
   \<and> \<not> within_root (Path ''/srv/static-evil/secret.txt'') srv_static
   \<and> serve_static srv_static (static_request ''../static-evil/secret.txt'') site_fs =
       (Inr (FileResponse (Path ''/srv/static-evil/secret.txt'') 200), site_fs)
   \<and> fs_node site_fs (Path ''/srv/static-evil/secret.txt'') =
       Some (RegularFile secret_bytes)"
  using serve_static_resolved [OF site_target_sibling_file site_root]
  by (simp add: site_target_sibling_file site_outside site_prefixes site_refused site_node)




text \<open>
  C5, as the source has it. Canonicalization that raises an exception of a class the
  \<^verbatim>\<open>except\<close> clause does not name is not answered with \<open>Forbidden\<close>: the exception
  leaves the handler.
\<close>

theorem oserror_not_forbidden:
  "fs_resolve (raising_fs OSError) (truediv srv_static
      (default_index (get_filepath (static_request ''report.pdf'')))) = Inl OSError
   \<and> fst (serve_static srv_static (static_request ''report.pdf'') (raising_fs OSError)) =
       Inl OSError
   \<and> fst (serve_static srv_static (static_request ''report.pdf'') (raising_fs OSError)) \<noteq>
       Inr (HTMLResponse ''Forbidden'' 403)"
proof -
  have e: "fs_resolve (raising_fs OSError) (truediv srv_static
      (default_index (get_filepath (static_request ''report.pdf'')))) = Inl OSError"
    by (simp add: raising_fs_def)
  show ?thesis
    using serve_static_candidate_raises [OF e] e by simp
qed

text \<open>
  C5, amended. When canonicalization of the candidate raises \<open>ValueError\<close> or
  \<open>RuntimeError\<close>, the handler answers with status 403 and the fixed body
  \<open>Forbidden\<close>, which holds no part of any path; an \<open>OSError\<close> is not caught and
  leaves the handler.
\<close>

theorem caught_canonicalization_error_forbidden:
  assumes "fs_resolve fs (truediv STATIC_DIR (default_index (get_filepath request))) = Inl e"
  shows "(e = ValueError \<or> e = RuntimeError \<longrightarrow>
            serve_static STATIC_DIR request fs = (Inr (HTMLResponse ''Forbidden'' 403), fs))
     \<and> (e = OSError \<longrightarrow> serve_static STATIC_DIR request fs = (Inl OSError, fs))"
  using serve_static_candidate_raises [OF assms] by simp

text \<open>
  Filesystems on which canonicalization raises \<open>ValueError\<close> and \<open>RuntimeError\<close>.
\<close>

theorem caught_canonicalization_error_forbidden_witness:
  "fs_resolve (raising_fs ValueError) (truediv srv_static
      (default_index (get_filepath (static_request ''report.pdf'')))) = Inl ValueError
   \<and> serve_static srv_static (static_request ''report.pdf'') (raising_fs ValueError) =
       (Inr (HTMLResponse ''Forbidden'' 403), raising_fs ValueError)
   \<and> fs_resolve (raising_fs RuntimeError) (truediv srv_static
      (default_index (get_filepath (static_request ''a/../b/'')))) = Inl RuntimeError
   \<and> serve_static srv_static (static_request ''a/../b/'') (raising_fs RuntimeError) =
       (Inr (HTMLResponse ''Forbidden'' 403), raising_fs RuntimeError)"
proof -
  have v: "fs_resolve (raising_fs ValueError) (truediv srv_static
      (default_index (get_filepath (static_request ''report.pdf'')))) = Inl ValueError"
    by (simp add: raising_fs_def)
  have r: "fs_resolve (raising_fs RuntimeError) (truediv srv_static
      (default_index (get_filepath (static_request ''a/../b/'')))) = Inl RuntimeError"
    by (simp add: raising_fs_def)
  show ?thesis
    using caught_canonicalization_error_forbidden [OF v]
      caught_canonicalization_error_forbidden [OF r] v r
    by simp
qed

text \<open>
  C6, as the source has it. A candidate that passes the prefix test and does not exist
  is not always answered with \<open>404\<close>: for a name of 300 characters nothing exists, the
  lookup is refused, \<^verbatim>\<open>is_file()\<close> raises \<open>OSError\<close> and the exception leaves the
  handler.
\<close>

theorem missing_long_name_raises:
  "fs_resolve site_fs (truediv srv_static
      (default_index (get_filepath (static_request long_name)))) = Inr long_path
   \<and> fs_resolve site_fs srv_static = Inr srv_static
   \<and> startswith (str_path long_path) (str_path srv_static)
   \<and> fs_node site_fs long_path = None
   \<and> serve_static srv_static (static_request long_name) site_fs = (Inl OSError, site_fs)
   \<and> fst (serve_static srv_static (static_request long_name) site_fs) \<noteq>
       Inr (HTMLResponse ''Not Found'' 404)"
  using serve_static_resolved [OF site_target_long site_root]
  by (simp add: site_target_long site_root site_prefixes site_refused site_node)

text \<open>
  C6, amended. When the canonical candidate passes the prefix test and does not exist,
  or exists and is not a regular file, and its lookup is answered, the handler answers
  with status 404 and the body \<open>Not Found\<close>; when the lookup is refused, the \<open>OSError\<close>
  leaves the handler. A non-empty request without a trailing separator gets no default
  document: its candidate is the join of the root with the request itself, so a request
  that names a directory this way ends in \<open>404\<close>.
\<close>

theorem not_a_regular_file_not_found:
  assumes "fs_resolve fs (truediv STATIC_DIR (default_index (get_filepath request))) = Inr c"
    and "fs_resolve fs STATIC_DIR = Inr r"
    and "startswith (str_path c) (str_path r)"
    and "fs_node fs c = None \<or> fs_node fs c = Some Directory \<or> fs_node fs c = Some Special"
  shows "(\<not> fs_refused fs c \<longrightarrow>
            serve_static STATIC_DIR request fs = (Inr (HTMLResponse ''Not Found'' 404), fs))
     \<and> (fs_refused fs c \<longrightarrow> serve_static STATIC_DIR request fs = (Inl OSError, fs))
     \<and> (get_filepath request \<noteq> [] \<and> \<not> endswith (get_filepath request) ''/'' \<longrightarrow>
          truediv STATIC_DIR (default_index (get_filepath request)) =
          truediv STATIC_DIR (get_filepath request))"
proof -
  from assms(4) have "\<not> (\<exists>bs. fs_node fs c = Some (RegularFile bs))" by auto
  then show ?thesis
    using serve_static_resolved [OF assms(1,2)] assms(3) by (simp add: default_index_def)
qed

text \<open>
  On the sample site: the request \<open>docs\<close> names a directory, \<open>missing.txt\<close> names
  nothing, and the lookup of both is answered.
\<close>

theorem not_a_regular_file_not_found_witness:
  "fs_resolve site_fs (truediv srv_static (get_filepath (static_request ''docs''))) =
     Inr (Path ''/srv/static/docs'')
   \<and> fs_node site_fs (Path ''/srv/static/docs'') = Some Directory
   \<and> \<not> fs_refused site_fs (Path ''/srv/static/docs'')
   \<and> serve_static srv_static (static_request ''docs'') site_fs =
       (Inr (HTMLResponse ''Not Found'' 404), site_fs)
   \<and> fs_node site_fs (Path ''/srv/static/missing.txt'') = None
   \<and> \<not> fs_refused site_fs (Path ''/srv/static/missing.txt'')
   \<and> serve_static srv_static (static_request ''missing.txt'') site_fs =
       (Inr (HTMLResponse ''Not Found'' 404), site_fs)"
proof -
  have d: "fs_node site_fs (Path ''/srv/static/docs'') = None \<or>
      fs_node site_fs (Path ''/srv/static/docs'') = Some Directory \<or>
      fs_node site_fs (Path ''/srv/static/docs'') = Some Special"
    by (simp add: site_node)
  have m: "fs_node site_fs (Path ''/srv/static/missing.txt'') = None \<or>
      fs_node site_fs (Path ''/srv/static/missing.txt'') = Some Directory \<or>
      fs_node site_fs (Path ''/srv/static/missing.txt'') = Some Special"
    by (simp add: site_node)
  have ne: "get_filepath (static_request ''docs'') \<noteq> [] \<and>
      \<not> endswith (get_filepath (static_request ''docs'')) ''/''"
    by code_simp
  show ?thesis
    using not_a_regular_file_not_found [OF site_target_docs site_root site_prefixes(4) d]
      not_a_regular_file_not_found [OF site_target_missing site_root site_prefixes(5) m]
      ne site_target_docs
    by (simp add: site_node site_refused)
qed

text \<open>
  C7. The handler hands the filesystem back as it received it; a second call with the
  same arguments on the filesystem the first call left gives the same outcome; and the
  request enters only through its \<open>filepath\<close> parameter, so two requests that agree on
  it (whatever their query parameters) get the same outcome from the same root and
  filesystem.
\<close>

theorem serve_static_stateless:
  "snd (serve_static STATIC_DIR request fs) = fs
   \<and> serve_static STATIC_DIR request (snd (serve_static STATIC_DIR request fs)) =
       serve_static STATIC_DIR request fs
   \<and> (get_filepath request' = get_filepath request \<longrightarrow>
        serve_static STATIC_DIR request' fs = serve_static STATIC_DIR request fs)"
proof -
  have same: "snd (serve_static STATIC_DIR request fs) = fs"
  proof (cases "fs_resolve fs (truediv STATIC_DIR (default_index (get_filepath request)))")
    case (Inl e)
    then show ?thesis by (simp add: serve_static_candidate_raises)
  next
    case c: (Inr c)
    show ?thesis
    proof (cases "fs_resolve fs STATIC_DIR")
      case (Inl e)
      with c show ?thesis by (simp add: serve_static_root_raises)
    next
      case (Inr r)
      with c show ?thesis by (simp add: serve_static_resolved)
    qed
  qed
  have again: "serve_static STATIC_DIR request (snd (serve_static STATIC_DIR request fs)) =
      serve_static STATIC_DIR request fs"
    by (simp only: same)
  have args: "serve_static STATIC_DIR request' fs = serve_static STATIC_DIR request fs"
    if "get_filepath request' = get_filepath request"
    using that by (simp add: serve_static_def)
  show ?thesis using same again args by blast
qed

text \<open>
  Two calls for \<open>report.pdf\<close> on the sample site, the second with a query parameter.
\<close>

theorem serve_static_stateless_witness:
  "get_filepath (static_request ''report.pdf''\<lparr>query_params := [(''v'', ''2'')]\<rparr>) =
     get_filepath (static_request ''report.pdf'')
   \<and> serve_static srv_static (static_request ''report.pdf''\<lparr>query_params := [(''v'', ''2'')]\<rparr>)
       (snd (serve_static srv_static (static_request ''report.pdf'') site_fs)) =
     (Inr (FileResponse (Path ''/srv/static/report.pdf'') 200), site_fs)"
proof -
  have q: "get_filepath (static_request ''report.pdf''\<lparr>query_params := [(''v'', ''2'')]\<rparr>) =
     get_filepath (static_request ''report.pdf'')"
    by (simp add: get_filepath_def static_request_def)
  show ?thesis
    using serve_static_stateless [of srv_static "static_request ''report.pdf''" site_fs
        "static_request ''report.pdf''\<lparr>query_params := [(''v'', ''2'')]\<rparr>"]
      serve_static_resolved [OF site_target_report site_root] q
    by (simp add: site_prefixes site_refused site_node)
qed



end
